theory Spec2Isabelle
  imports Main "HOL-Library.Word"
begin

section \<open>The jg::mock call-interception engine (inc/jg_mock.h)\<close>

text \<open>
  The header is a family of class templates over a return type \<open>T\<close> and a parameter pack
  \<open>Params...\<close>. The embedding is polymorphic where the templates are generic:
  \<^item> \<open>'r\<close> is the type of the values a call returns (\<open>unit\<close> for \<open>void\<close>);
  \<^item> \<open>'a\<close> is the type of argument values; a parameter pack is an \<open>'a list\<close>, so one
    definition covers every arity, and \<open>'a\<close> can be a sum type when the parameters differ;
  \<^item> \<open>'slot\<close> is the base class \<open>mock_aux_return<T>\<close>: \<open>unit\<close> for \<open>void\<close> (the
    empty class), a \<open>verified\<close> box otherwise;
  \<^item> \<open>'w\<close> is the state of the test program outside the mock, on which a callable assigned
    to \<open>func\<close> has its side effects, and \<open>'e\<close> the exceptions such a callable throws.
  Value-initialisation (\<open>T{}\<close>, a default-constructed \<open>std::tuple\<close>) depends on the
  template arguments only, so the value-initialised objects are arguments of the
  constructors below.
\<close>

subsection \<open>Machine integers and how a piece of code completes\<close>

text \<open>\<open>size_t\<close> on a 64-bit target: unsigned, \<open>++\<close> wraps around at \<open>2^64\<close>.\<close>

type_synonym size_t = "64 word"

text \<open>
  A computation returns a value, leaves by an exception (one thrown by a user callable, or
  the one \<open>verify\<close> throws), terminates the process, or has undefined behaviour. After
  the last two there is no program state to speak of.
\<close>

datatype ('v, 'e) completion =
    Returns 'v
  | Throws 'e
  | Verify_throws
  | Aborts
  | Undefined

fun exits :: "('v, 'e) completion \<Rightarrow> bool" where
  "exits (Returns v) = True"
| "exits (Throws e) = True"
| "exits Verify_throws = True"
| "exits Aborts = False"
| "exits Undefined = False"

subsection \<open>jg::verify (jg_verify.h)\<close>

datatype verify_config = Abort_on_failure | Throw_on_failure | Log_and_continue

text \<open>
  Modelled from the spec: \<open>jg::verify\<close>, declared in jg_verify.h, which is not among the
  sources. The spec describes it as a primitive that "fails the process (or throws/aborts
  per configuration) when a condition is false", "configurable externally to abort, throw,
  or log-and-continue". The third component counts the violations \<open>verify\<close> has detected,
  which is how a run of the model shows that the failure path was taken.
\<close>

definition verify :: "verify_config \<Rightarrow> bool \<Rightarrow> nat \<Rightarrow> (unit, 'e) completion \<times> nat" where
  "verify cfg condition violations =
     (if condition then (Returns (), violations)
      else (case cfg of
              Abort_on_failure \<Rightarrow> (Aborts, Suc violations)
            | Throw_on_failure \<Rightarrow> (Verify_throws, Suc violations)
            | Log_and_continue \<Rightarrow> (Returns (), Suc violations)))"

subsection \<open>jg::trim (jg_string.h)\<close>

text \<open>
  Modelled from the spec: \<open>jg::trim\<close>, declared in jg_string.h, which is not among the
  sources. The spec calls it a string-trimming helper that leaves a string "with surrounding
  whitespace trimmed"; the second argument is the set of characters to remove from both ends.
\<close>

definition trim_left :: "string \<Rightarrow> string \<Rightarrow> string" where
  "trim_left s characters = dropWhile (\<lambda>c. c \<in> set characters) s"

definition trim_right :: "string \<Rightarrow> string \<Rightarrow> string" where
  "trim_right s characters = rev (dropWhile (\<lambda>c. c \<in> set characters) (rev s))"

definition trim :: "string \<Rightarrow> string \<Rightarrow> string" where
  "trim s characters = trim_right (trim_left s characters) characters"

subsection \<open>verified<T>, T not a reference\<close>

record 'T verified =
  "value" :: 'T
  assigned :: bool

text \<open>The default member initialisers \<open>T value{}\<close> and \<open>bool assigned = false\<close>; the
  argument is \<open>T{}\<close>.\<close>

definition verified :: "'T \<Rightarrow> 'T verified" where
  "verified T_init = \<lparr>value = T_init, assigned = False\<rparr>"

text \<open>Both \<open>operator=\<close> overloads (copy and move) store the value and set the flag.\<close>

definition verified_assign :: "'T \<Rightarrow> 'T verified \<Rightarrow> 'T verified" where
  "verified_assign other this = this\<lparr>value := other, assigned := True\<rparr>"

text \<open>\<open>operator T()\<close>: \<open>verify(assigned); return value;\<close>\<close>

definition verified_operator_T ::
  "verify_config \<Rightarrow> 'T verified \<Rightarrow> nat \<Rightarrow> ('T, 'e) completion \<times> nat" where
  "verified_operator_T cfg this violations =
     (case verify cfg (assigned this) violations of
        (Returns u, violations') \<Rightarrow> (Returns (value this), violations')
      | (Throws e, violations') \<Rightarrow> (Throws e, violations')
      | (Verify_throws, violations') \<Rightarrow> (Verify_throws, violations')
      | (Aborts, violations') \<Rightarrow> (Aborts, violations')
      | (Undefined, violations') \<Rightarrow> (Undefined, violations'))"

subsection \<open>verified<T>, T a reference\<close>

text \<open>
  The box holds a pointer to the referenced object, \<open>nullptr\<close> (\<open>None\<close>) until the first
  assignment; \<open>'p\<close> is the type of object addresses, and the reference a call returns is
  the address it refers to.
\<close>

record 'p verified_ref =
  value_ref :: "'p option"
  assigned_ref :: bool

definition verified_ref :: "'p verified_ref" where
  "verified_ref = \<lparr>value_ref = None, assigned_ref = False\<rparr>"

definition verified_ref_assign :: "'p \<Rightarrow> 'p verified_ref \<Rightarrow> 'p verified_ref" where
  "verified_ref_assign other this = this\<lparr>value_ref := Some other, assigned_ref := True\<rparr>"


subsection \<open>mock_aux: the auxiliary data of one mock function\<close>

text \<open>
  A callable assigned to \<open>func\<close> is C++ code that can hold a reference to the auxiliary data
  and read \<open>count()\<close> and \<open>param<i>()\<close> while it runs. The model hands it what it would
  read there (\<open>seen_count\<close>, \<open>seen_params\<close>), then the arguments of the call and the outer
  state \<open>'w\<close>. Callables that write to the auxiliary data of the mock they implement
  (re-entrant calls, \<open>reset()\<close> from inside the callable) are outside the model.
\<close>

record 'a seen =
  seen_count :: size_t
  seen_params :: "'a list"

type_synonym ('r, 'a, 'w, 'e) callable =
  "'a seen \<Rightarrow> 'a list \<Rightarrow> 'w \<Rightarrow> ('r, 'e) completion \<times> 'w"

record ('slot, 'r, 'a, 'w, 'e) mock_aux =
  result :: 'slot
  m_params :: "'a list"
  func :: "('r, 'a, 'w, 'e) callable option"
  m_count :: size_t
  m_prototype :: string

text \<open>
  The constructor \<open>mock_aux(std::string prototype)\<close>. The base classes and \<open>func\<close> are
  default-constructed: \<open>result_init\<close> is the default-constructed \<open>mock_aux_return<T>\<close>
  and \<open>params_init\<close> the value-initialised \<open>tuple_params_t<Params...>\<close> (empty for arity 0,
  where the class has no such member).
\<close>

definition mock_aux ::
  "'slot \<Rightarrow> 'a list \<Rightarrow> string \<Rightarrow> ('slot, 'r, 'a, 'w, 'e) mock_aux" where
  "mock_aux result_init params_init prototype =
     \<lparr>result = result_init, m_params = params_init, func = None,
      m_count = 0, m_prototype = trim prototype '' ''\<rparr>"

definition count :: "('slot, 'r, 'a, 'w, 'e) mock_aux \<Rightarrow> size_t" where
  "count this = m_count this"

definition called :: "('slot, 'r, 'a, 'w, 'e) mock_aux \<Rightarrow> bool" where
  "called this = (m_count this > 0)"

definition prototype :: "('slot, 'r, 'a, 'w, 'e) mock_aux \<Rightarrow> string" where
  "prototype this = m_prototype this"

text \<open>\<open>reset()\<close>: \<open>*this = mock_aux(m_prototype);\<close>\<close>

definition reset ::
  "'slot \<Rightarrow> 'a list \<Rightarrow> ('slot, 'r, 'a, 'w, 'e) mock_aux \<Rightarrow> ('slot, 'r, 'a, 'w, 'e) mock_aux" where
  "reset result_init params_init this = mock_aux result_init params_init (m_prototype this)"

text \<open>
  \<open>param<Number>()\<close> is \<open>std::get<Number - 1>(m_params)\<close>. A \<open>Number\<close> outside
  \<open>1..N\<close> does not compile: \<open>None\<close>.
\<close>

definition param :: "nat \<Rightarrow> ('slot, 'r, 'a, 'w, 'e) mock_aux \<Rightarrow> 'a option" where
  "param Number this =
     (if 1 \<le> Number \<and> Number \<le> length (m_params this)
      then Some (m_params this ! (Number - 1)) else None)"

text \<open>\<open>set_params\<close>: \<open>m_params = std::make_tuple(params...);\<close> stores decayed copies.\<close>

definition set_params ::
  "'a list \<Rightarrow> ('slot, 'r, 'a, 'w, 'e) mock_aux \<Rightarrow> ('slot, 'r, 'a, 'w, 'e) mock_aux" where
  "set_params params this = this\<lparr>m_params := params\<rparr>"

definition seen :: "('slot, 'r, 'a, 'w, 'e) mock_aux \<Rightarrow> 'a seen" where
  "seen this = \<lparr>seen_count = count this, seen_params = m_params this\<rparr>"

subsection \<open>mock_impl_base: resolving the outcome\<close>

text \<open>The specialisation for \<open>void\<close>: \<open>if (aux.func) aux.func(params...);\<close>\<close>

definition mock_impl_base_void_impl ::
  "(unit, unit, 'a, 'w, 'e) mock_aux \<Rightarrow> 'a list \<Rightarrow> 'w \<Rightarrow> nat
     \<Rightarrow> (unit, 'e) completion \<times> 'w \<times> nat" where
  "mock_impl_base_void_impl aux params w violations =
     (case func aux of
        Some f \<Rightarrow> (case f (seen aux) params w of (c, w') \<Rightarrow> (c, w', violations))
      | None \<Rightarrow> (Returns (), w, violations))"

text \<open>
  The specialisation for every other \<open>T\<close>:
  \<open>if (aux.func) return aux.func(params...); return aux.result;\<close>
  The last line converts \<open>aux.result\<close> with the \<open>operator T()\<close> of the \<open>verified<T>\<close>
  specialisation in use, the argument \<open>operator_T\<close>.
\<close>

definition mock_impl_base_impl ::
  "('slot \<Rightarrow> nat \<Rightarrow> ('r, 'e) completion \<times> nat)
     \<Rightarrow> ('slot, 'r, 'a, 'w, 'e) mock_aux \<Rightarrow> 'a list \<Rightarrow> 'w \<Rightarrow> nat
     \<Rightarrow> ('r, 'e) completion \<times> 'w \<times> nat" where
  "mock_impl_base_impl operator_T aux params w violations =
     (case func aux of
        Some f \<Rightarrow> (case f (seen aux) params w of (c, w') \<Rightarrow> (c, w', violations))
      | None \<Rightarrow> (case operator_T (result aux) violations of (c, violations') \<Rightarrow> (c, w, violations')))"

subsection \<open>mock_impl: one call\<close>

text \<open>
  \<open>mock_impl\<close> holds a reference to the auxiliary data of the mock; its constructor does
  nothing else. \<open>impl(Params&&...)\<close> stores the arguments and resolves the outcome; the
  overload \<open>impl()\<close>, chosen for a call without arguments, only resolves the outcome.
\<close>

definition mock_impl_impl ::
  "(('slot, 'r, 'a, 'w, 'e) mock_aux \<Rightarrow> 'a list \<Rightarrow> 'w \<Rightarrow> nat \<Rightarrow> ('r, 'e) completion \<times> 'w \<times> nat)
     \<Rightarrow> ('slot, 'r, 'a, 'w, 'e) mock_aux \<Rightarrow> 'a list \<Rightarrow> 'w \<Rightarrow> nat
     \<Rightarrow> ('r, 'e) completion \<times> ('slot, 'r, 'a, 'w, 'e) mock_aux \<times> 'w \<times> nat" where
  "mock_impl_impl base_impl aux params w violations =
     (case params of
        [] \<Rightarrow> (case base_impl aux [] w violations of (c, w', violations') \<Rightarrow> (c, aux, w', violations'))
      | p # ps \<Rightarrow>
          (let aux' = set_params params aux
           in case base_impl aux' params w violations of
                (c, w', violations') \<Rightarrow> (c, aux', w', violations')))"

text \<open>The destructor \<open>~mock_impl()\<close>: \<open>aux.m_count++;\<close>\<close>

definition mock_impl_dtor ::
  "('slot, 'r, 'a, 'w, 'e) mock_aux \<Rightarrow> ('slot, 'r, 'a, 'w, 'e) mock_aux" where
  "mock_impl_dtor aux = aux\<lparr>m_count := m_count aux + 1\<rparr>"

text \<open>
  The function body that \<open>JG_MOCK\<close> generates:
  \<open>return mock_impl<...>(aux).impl(p1, ..., pN);\<close>
  The temporary \<open>mock_impl\<close> is destroyed when \<open>impl\<close> returns and when an exception leaves
  it; when the process is terminated inside \<open>impl\<close> no destructor runs.
\<close>

definition JG_MOCK_function ::
  "(('slot, 'r, 'a, 'w, 'e) mock_aux \<Rightarrow> 'a list \<Rightarrow> 'w \<Rightarrow> nat \<Rightarrow> ('r, 'e) completion \<times> 'w \<times> nat)
     \<Rightarrow> ('slot, 'r, 'a, 'w, 'e) mock_aux \<Rightarrow> 'a list \<Rightarrow> 'w \<Rightarrow> nat
     \<Rightarrow> ('r, 'e) completion \<times> ('slot, 'r, 'a, 'w, 'e) mock_aux \<times> 'w \<times> nat" where
  "JG_MOCK_function base_impl aux params w violations =
     (case mock_impl_impl base_impl aux params w violations of
        (c, aux', w', violations') \<Rightarrow>
          (if exits c then (c, mock_impl_dtor aux', w', violations')
           else (c, aux', w', violations')))"

text \<open>
  The string \<open>JG_MOCK\<close> passes to the constructor:
  \<open>#return_type " " #function_name "(" #__VA_ARGS__ ") " #suffix\<close>,
  from the macro arguments as the preprocessor has turned them into strings.
\<close>

definition JG_MOCK_prototype :: "string \<Rightarrow> string \<Rightarrow> string \<Rightarrow> string \<Rightarrow> string" where
  "JG_MOCK_prototype return_type function_name va_args suffix =
     return_type @ '' '' @ function_name @ ''('' @ va_args @ '') '' @ suffix"

subsection \<open>What a test does with a mock\<close>

text \<open>
  A test drives a mock through its public interface: the code under test calls the mock
  function, the test assigns \<open>func\<close> (a callable, or an empty \<open>std::function\<close>), assigns
  a value to \<open>result\<close>, and calls \<open>reset()\<close>. A call that leaves by an exception is
  caught by the test, which goes on; a call that terminates the process ends the run
  (\<open>None\<close>). The first four arguments of \<open>step\<close> and \<open>run\<close> come with the template
  arguments: the \<open>mock_impl_base\<close> specialisation, the \<open>operator=\<close> of \<open>result\<close>
  (for \<open>void\<close> there is no \<open>result\<close> to assign to), and the default-constructed bases.
\<close>

datatype ('x, 'r, 'a, 'w, 'e) action =
    Call "'a list"
  | Assign_func "('r, 'a, 'w, 'e) callable option"
  | Assign_result 'x
  | Reset

fun step ::
  "(('slot, 'r, 'a, 'w, 'e) mock_aux \<Rightarrow> 'a list \<Rightarrow> 'w \<Rightarrow> nat \<Rightarrow> ('r, 'e) completion \<times> 'w \<times> nat)
     \<Rightarrow> ('x \<Rightarrow> 'slot \<Rightarrow> 'slot) \<Rightarrow> 'slot \<Rightarrow> 'a list \<Rightarrow> ('x, 'r, 'a, 'w, 'e) action
     \<Rightarrow> ('slot, 'r, 'a, 'w, 'e) mock_aux \<times> 'w \<times> nat
     \<Rightarrow> (('slot, 'r, 'a, 'w, 'e) mock_aux \<times> 'w \<times> nat) option" where
  "step base_impl assign result_init params_init (Call params) (aux, w, violations) =
     (case JG_MOCK_function base_impl aux params w violations of
        (c, aux', w', violations') \<Rightarrow> if exits c then Some (aux', w', violations') else None)"
| "step base_impl assign result_init params_init (Assign_func f) (aux, w, violations) =
     Some (aux\<lparr>func := f\<rparr>, w, violations)"
| "step base_impl assign result_init params_init (Assign_result x) (aux, w, violations) =
     Some (aux\<lparr>result := assign x (result aux)\<rparr>, w, violations)"
| "step base_impl assign result_init params_init Reset (aux, w, violations) =
     Some (reset result_init params_init aux, w, violations)"

fun run ::
  "(('slot, 'r, 'a, 'w, 'e) mock_aux \<Rightarrow> 'a list \<Rightarrow> 'w \<Rightarrow> nat \<Rightarrow> ('r, 'e) completion \<times> 'w \<times> nat)
     \<Rightarrow> ('x \<Rightarrow> 'slot \<Rightarrow> 'slot) \<Rightarrow> 'slot \<Rightarrow> 'a list \<Rightarrow> ('x, 'r, 'a, 'w, 'e) action list
     \<Rightarrow> ('slot, 'r, 'a, 'w, 'e) mock_aux \<times> 'w \<times> nat
     \<Rightarrow> (('slot, 'r, 'a, 'w, 'e) mock_aux \<times> 'w \<times> nat) option" where
  "run base_impl assign result_init params_init [] s = Some s"
| "run base_impl assign result_init params_init (a # as) s =
     (case step base_impl assign result_init params_init a s of
        None \<Rightarrow> None
      | Some s' \<Rightarrow> run base_impl assign result_init params_init as s')"

text \<open>The number of calls in a run since the last \<open>reset()\<close>, or since the start (where
  \<open>n\<close> calls had been made) when there is none.\<close>

fun calls_since_reset :: "nat \<Rightarrow> ('x, 'r, 'a, 'w, 'e) action list \<Rightarrow> nat" where
  "calls_since_reset n [] = n"
| "calls_since_reset n (Call params # as) = calls_since_reset (Suc n) as"
| "calls_since_reset n (Assign_func f # as) = calls_since_reset n as"
| "calls_since_reset n (Assign_result x # as) = calls_since_reset n as"
| "calls_since_reset n (Reset # as) = calls_since_reset 0 as"

fun is_assignment :: "('x, 'r, 'a, 'w, 'e) action \<Rightarrow> bool" where
  "is_assignment (Assign_func f) = True"
| "is_assignment (Assign_result x) = True"
| "is_assignment (Call params) = False"
| "is_assignment Reset = False"

section \<open>Properties\<close>

subsection \<open>One call\<close>

lemma call_resolves:
  assumes "JG_MOCK_function base_impl aux params w v = (c, aux', w', v')"
  shows "base_impl (aux\<lparr>m_params := (if params = [] then m_params aux else params)\<rparr>) params w v = (c, w', v')"
  using assms
  by (cases params)
     (auto simp: JG_MOCK_function_def mock_impl_impl_def set_params_def Let_def split: prod.splits if_splits)

lemma call_updates:
  assumes "JG_MOCK_function base_impl aux params w v = (c, aux', w', v')"
  shows "aux' = aux\<lparr>m_params := (if params = [] then m_params aux else params),
                     m_count := (if exits c then m_count aux + 1 else m_count aux)\<rparr>"
  using assms
  by (cases params)
     (auto simp: JG_MOCK_function_def mock_impl_impl_def set_params_def mock_impl_dtor_def Let_def split: prod.splits if_splits)

lemma call_with_func:
  assumes "JG_MOCK_function (mock_impl_base_impl operator_T) aux params w v = (c, aux', w', v')"
    and "func aux = Some f"
  shows "f \<lparr>seen_count = count aux, seen_params = m_params aux'\<rparr> params w = (c, w') \<and> v' = v"
  using call_resolves[OF assms(1)] call_updates[OF assms(1)] assms(2)
  by (auto simp: mock_impl_base_impl_def seen_def count_def split: prod.splits)

lemma void_call_with_func:
  assumes "JG_MOCK_function mock_impl_base_void_impl aux params w v = (c, aux', w', v')"
    and "func aux = Some f"
  shows "f \<lparr>seen_count = count aux, seen_params = m_params aux'\<rparr> params w = (c, w') \<and> v' = v"
  using call_resolves[OF assms(1)] call_updates[OF assms(1)] assms(2)
  by (auto simp: mock_impl_base_void_impl_def seen_def count_def split: prod.splits)

lemma call_without_func:
  assumes "JG_MOCK_function (mock_impl_base_impl operator_T) aux params w v = (c, aux', w', v')"
    and "func aux = None"
  shows "operator_T (result aux) v = (c, v') \<and> w' = w"
  using call_resolves[OF assms(1)] assms(2)
  by (auto simp: mock_impl_base_impl_def split: prod.splits)

lemma step_Call:
  assumes "step base_impl assign r0 p0 (Call params) (aux, w, v) = Some (aux', w', v')"
  shows "\<exists>c. JG_MOCK_function base_impl aux params w v = (c, aux', w', v') \<and> exits c"
  using assms by (auto split: prod.splits if_splits)


lemma calls_since_reset_Cons: "calls_since_reset n (a # as) = calls_since_reset (calls_since_reset n [a]) as"
  by (cases a) simp_all

lemma run_Cons_Some:
  assumes "run base_impl assign r0 p0 (a # as) (aux, w, v) = Some s'"
  obtains aux1 w1 v1 where "step base_impl assign r0 p0 a (aux, w, v) = Some (aux1, w1, v1)"
    and "run base_impl assign r0 p0 as (aux1, w1, v1) = Some s'"
proof -
  from assms obtain s1 where "step base_impl assign r0 p0 a (aux, w, v) = Some s1"
    and "run base_impl assign r0 p0 as s1 = Some s'"
    by (auto split: option.splits)
  moreover obtain aux1 w1 v1 where "s1 = (aux1, w1, v1)" by (cases s1)
  ultimately show thesis using that by simp
qed


lemma run_append:
  "run base_impl assign r0 p0 (xs @ ys) s = (case run base_impl assign r0 p0 xs s of None \<Rightarrow> None | Some s' \<Rightarrow> run base_impl assign r0 p0 ys s')"
  by (induction xs arbitrary: s) (auto split: option.splits)

subsection \<open>Trimming\<close>

lemma takeWhile_subset: "set (takeWhile (\<lambda>c. c \<in> A) xs) \<subseteq> A"
  by (induction xs) auto

lemma trim_right_prefix: "\<exists>zs. s = trim_right s cs @ zs \<and> set zs \<subseteq> set cs"
proof -
  let ?P = "\<lambda>c. c \<in> set cs"
  have "rev (rev s) = rev (takeWhile ?P (rev s) @ dropWhile ?P (rev s))"
    by (simp only: takeWhile_dropWhile_id)
  then have "s = rev (dropWhile ?P (rev s)) @ rev (takeWhile ?P (rev s))"
    by (simp only: rev_append rev_rev_ident)
  moreover have "set (rev (takeWhile ?P (rev s))) \<subseteq> set cs"
    using takeWhile_subset[of "set cs" "rev s"] by simp
  ultimately show ?thesis unfolding trim_right_def by blast
qed

lemma trim_left_suffix: "\<exists>ys. s = ys @ trim_left s cs \<and> set ys \<subseteq> set cs"
proof -
  let ?P = "\<lambda>c. c \<in> set cs"
  have "s = takeWhile ?P s @ dropWhile ?P s" by simp
  moreover have "set (takeWhile ?P s) \<subseteq> set cs" by (rule takeWhile_subset)
  ultimately show ?thesis unfolding trim_left_def by blast
qed

lemma trim_surrounded: "\<exists>ys zs. s = ys @ trim s cs @ zs \<and> set ys \<subseteq> set cs \<and> set zs \<subseteq> set cs"
proof -
  obtain ys where ys: "s = ys @ trim_left s cs" "set ys \<subseteq> set cs"
    using trim_left_suffix by blast
  obtain zs where zs: "trim_left s cs = trim s cs @ zs" "set zs \<subseteq> set cs"
    using trim_right_prefix[of "trim_left s cs" cs] unfolding trim_def by blast
  have "s = ys @ trim s cs @ zs"
    using ys(1) zs(1) by simp
  with ys(2) zs(2) show ?thesis by blast
qed

lemma trim_last: "trim s cs \<noteq> [] \<Longrightarrow> last (trim s cs) \<notin> set cs"
proof -
  assume ne: "trim s cs \<noteq> []"
  let ?P = "\<lambda>c. c \<in> set cs"
  let ?d = "dropWhile ?P (rev (trim_left s cs))"
  from ne have d: "?d \<noteq> []" by (simp add: trim_def trim_right_def)
  then have "\<not> ?P (hd ?d)" by (rule hd_dropWhile)
  moreover have "last (trim s cs) = hd ?d"
    using d by (simp add: trim_def trim_right_def last_rev)
  ultimately show ?thesis by simp
qed

lemma trim_hd: "trim s cs \<noteq> [] \<Longrightarrow> hd (trim s cs) \<notin> set cs"
proof -
  assume ne: "trim s cs \<noteq> []"
  let ?P = "\<lambda>c. c \<in> set cs"
  let ?t = "trim_left s cs"
  obtain zs where zs: "?t = trim s cs @ zs"
    using trim_right_prefix[of ?t cs] unfolding trim_def by blast
  from ne zs have t: "?t \<noteq> []" by auto
  from ne zs have h: "hd (trim s cs) = hd ?t" by (metis hd_append2)
  from t have "\<not> ?P (hd ?t)"
    unfolding trim_left_def by (rule hd_dropWhile)
  with h show ?thesis by simp
qed

lemma trim_Nil: "trim [] cs = []"
  by (simp add: trim_def trim_left_def trim_right_def)

lemma trim_idem: "trim (trim s cs) cs = trim s cs"
proof (cases "trim s cs = []")
  case True
  show ?thesis unfolding True by (rule trim_Nil)
next
  case False
  let ?u = "trim s cs"
  have "dropWhile (\<lambda>c. c \<in> set cs) ?u = ?u"
    using trim_hd[OF False] False by (simp add: dropWhile_eq_self_iff)
  then have l: "trim_left ?u cs = ?u"
    by (simp add: trim_left_def)
  have r: "trim_right ?u cs = ?u"
    unfolding trim_def trim_right_def by simp
  show ?thesis
    unfolding trim_def[of ?u] l by (rule r)
qed

subsection \<open>Runs\<close>

lemma step_assignment_keeps:
  assumes "step base_impl assign r0 p0 a (aux, w, v) = Some (aux', w', v')" and "is_assignment a"
  shows "m_params aux' = m_params aux \<and> m_count aux' = m_count aux \<and> m_prototype aux' = m_prototype aux"
  using assms by (cases a) auto

lemma run_assignments_keep:
  "run base_impl assign r0 p0 acts (aux, w, v) = Some (aux', w', v') \<Longrightarrow> \<forall>a\<in>set acts. is_assignment a
     \<Longrightarrow> m_params aux' = m_params aux"
proof (induction acts arbitrary: aux w v)
  case Nil
  then show ?case by simp
next
  case (Cons a acts)
  from Cons.prems(1) obtain aux1 w1 v1 where
    st: "step base_impl assign r0 p0 a (aux, w, v) = Some (aux1, w1, v1)"
    and r: "run base_impl assign r0 p0 acts (aux1, w1, v1) = Some (aux', w', v')"
    by (rule run_Cons_Some)
  from Cons.prems(2) have a: "is_assignment a" and as: "\<forall>a\<in>set acts. is_assignment a" by simp_all
  from Cons.IH[OF r as] step_assignment_keeps[OF st a] show ?case by simp
qed

lemma step_prototype:
  assumes "step base_impl assign r0 p0 a (aux, w, v) = Some (aux', w', v')"
    and "trim (m_prototype aux) '' '' = m_prototype aux"
  shows "m_prototype aux' = m_prototype aux"
proof (cases a)
  case (Call params)
  from assms(1) have "\<exists>c. JG_MOCK_function base_impl aux params w v = (c, aux', w', v') \<and> exits c"
    unfolding Call by (rule step_Call)
  then obtain c where "JG_MOCK_function base_impl aux params w v = (c, aux', w', v')" by blast
  from call_updates[OF this] show ?thesis by simp
next
  case (Assign_func f)
  with assms show ?thesis by auto
next
  case (Assign_result x)
  with assms show ?thesis by auto
next
  case Reset
  with assms show ?thesis by (auto simp: reset_def mock_aux_def)
qed

lemma run_prototype:
  "run base_impl assign r0 p0 acts (aux, w, v) = Some (aux', w', v') \<Longrightarrow>
   trim (m_prototype aux) '' '' = m_prototype aux \<Longrightarrow> m_prototype aux' = m_prototype aux"
proof (induction acts arbitrary: aux w v)
  case Nil
  then show ?case by simp
next
  case (Cons a acts)
  from Cons.prems(1) obtain aux1 w1 v1 where
    st: "step base_impl assign r0 p0 a (aux, w, v) = Some (aux1, w1, v1)"
    and r: "run base_impl assign r0 p0 acts (aux1, w1, v1) = Some (aux', w', v')"
    by (rule run_Cons_Some)
  have p: "m_prototype aux1 = m_prototype aux"
    by (rule step_prototype[OF st Cons.prems(2)])
  with Cons.prems(2) have "trim (m_prototype aux1) '' '' = m_prototype aux1" by simp
  from Cons.IH[OF r this] p show ?case by simp
qed

lemma run_from_constructed_prototype:
  assumes "run base_impl assign r0 p0 acts (mock_aux r0 p0 proto, w, v) = Some (aux', w', v')"
  shows "m_prototype aux' = trim proto '' ''"
proof -
  have "trim (m_prototype (mock_aux r0 p0 proto)) '' '' = m_prototype (mock_aux r0 p0 proto)"
    by (simp add: mock_aux_def trim_idem)
  from run_prototype[OF assms this] show ?thesis by (simp add: mock_aux_def)
qed

lemma step_params_default:
  assumes "step base_impl assign r0 p0 a (aux, w, v) = Some (aux', w', v')"
    and "n = 0 \<longrightarrow> m_params aux = p0"
  shows "calls_since_reset n [a] = 0 \<longrightarrow> m_params aux' = p0"
  using assms by (cases a) (auto simp: reset_def mock_aux_def)

lemma run_params_default:
  "run base_impl assign r0 p0 acts (aux, w, v) = Some (aux', w', v') \<Longrightarrow>
   (n = 0 \<longrightarrow> m_params aux = p0) \<Longrightarrow> calls_since_reset n acts = 0 \<longrightarrow> m_params aux' = p0"
proof (induction acts arbitrary: aux w v n)
  case Nil
  then show ?case by simp
next
  case (Cons a acts)
  from Cons.prems(1) obtain aux1 w1 v1 where
    st: "step base_impl assign r0 p0 a (aux, w, v) = Some (aux1, w1, v1)"
    and r: "run base_impl assign r0 p0 acts (aux1, w1, v1) = Some (aux', w', v')"
    by (rule run_Cons_Some)
  have "calls_since_reset n [a] = 0 \<longrightarrow> m_params aux1 = p0"
    by (rule step_params_default[OF st Cons.prems(2)])
  from Cons.IH[OF r this] show ?case
    by (subst calls_since_reset_Cons)
qed

lemma step_value_slot:
  assumes "step base_impl verified_assign (verified d) p0 a (aux, w, v) = Some (aux', w', v')"
    and "assigned (result aux) \<or> value (result aux) = d"
  shows "assigned (result aux') \<or> value (result aux') = d"
proof (cases a)
  case (Call params)
  from assms(1) have "\<exists>c. JG_MOCK_function base_impl aux params w v = (c, aux', w', v') \<and> exits c"
    unfolding Call by (rule step_Call)
  then obtain c where "JG_MOCK_function base_impl aux params w v = (c, aux', w', v')" by blast
  from call_updates[OF this] assms(2) show ?thesis by simp
next
  case (Assign_func f)
  with assms show ?thesis by auto
next
  case (Assign_result x)
  with assms show ?thesis by (auto simp: verified_assign_def)
next
  case Reset
  with assms show ?thesis by (auto simp: reset_def mock_aux_def verified_def)
qed

lemma run_value_slot:
  "run base_impl verified_assign (verified d) p0 acts (aux, w, v) = Some (aux', w', v') \<Longrightarrow>
   assigned (result aux) \<or> value (result aux) = d \<Longrightarrow> assigned (result aux') \<or> value (result aux') = d"
proof (induction acts arbitrary: aux w v)
  case Nil
  then show ?case by simp
next
  case (Cons a acts)
  from Cons.prems(1) obtain aux1 w1 v1 where
    st: "step base_impl verified_assign (verified d) p0 a (aux, w, v) = Some (aux1, w1, v1)"
    and r: "run base_impl verified_assign (verified d) p0 acts (aux1, w1, v1) = Some (aux', w', v')"
    by (rule run_Cons_Some)
  have "assigned (result aux1) \<or> value (result aux1) = d"
    by (rule step_value_slot[OF st Cons.prems(2)])
  from Cons.IH[OF r this] show ?case .
qed

lemma read_unassigned:
  "\<not> assigned slot \<Longrightarrow> verified_operator_T cfg slot v =
     (case cfg of Abort_on_failure \<Rightarrow> (Aborts, Suc v) | Throw_on_failure \<Rightarrow> (Verify_throws, Suc v)
      | Log_and_continue \<Rightarrow> (Returns (value slot), Suc v))"
  by (cases cfg) (simp_all add: verified_operator_T_def verify_def)





subsection \<open>The claims\<close>







text \<open>
  C3. A call that exits, by returning or by an exception, leaves \<open>count()\<close> exactly one
  higher, for every \<open>mock_impl_base\<close> specialisation and whatever resolved the outcome.
  The increment comes after the outcome is resolved: a callable in \<open>func\<close> runs while
  \<open>count()\<close> still has its old value, and when that callable throws, the exception is the
  outcome of the call and the counter is incremented all the same. (A call in which
  \<open>verify\<close> terminates the process does not exit, and runs no destructor.)
\<close>

theorem call_increments_count_once:
  "(JG_MOCK_function base_impl aux params w v = (c, aux', w', v') \<and> exits c
      \<longrightarrow> count aux' = count aux + 1)
   \<and> (JG_MOCK_function (mock_impl_base_impl operator_T) auxn params w v = (cn, auxn', wn', vn')
        \<and> func auxn = Some f
      \<longrightarrow> f \<lparr>seen_count = count auxn, seen_params = m_params auxn'\<rparr> params w = (cn, wn')
          \<and> (\<forall>e. cn = Throws e \<longrightarrow> count auxn' = count auxn + 1))
   \<and> (JG_MOCK_function mock_impl_base_void_impl auxv params w v = (cv, auxv', wv', vv')
        \<and> func auxv = Some g
      \<longrightarrow> g \<lparr>seen_count = count auxv, seen_params = m_params auxv'\<rparr> params w = (cv, wv')
          \<and> (\<forall>e. cv = Throws e \<longrightarrow> count auxv' = count auxv + 1))"
proof (intro conjI impI allI)
  assume "JG_MOCK_function base_impl aux params w v = (c, aux', w', v') \<and> exits c"
  then have e: "JG_MOCK_function base_impl aux params w v = (c, aux', w', v')" and x: "exits c"
    by simp_all
  from call_updates[OF e] x show "count aux' = count aux + 1"
    by (simp add: count_def)
next
  assume "JG_MOCK_function (mock_impl_base_impl operator_T) auxn params w v = (cn, auxn', wn', vn')
        \<and> func auxn = Some f"
  then have e: "JG_MOCK_function (mock_impl_base_impl operator_T) auxn params w v = (cn, auxn', wn', vn')"
    and f: "func auxn = Some f" by simp_all
  from call_with_func[OF e f]
  show "f \<lparr>seen_count = count auxn, seen_params = m_params auxn'\<rparr> params w = (cn, wn')" by simp
  fix e' assume "cn = Throws e'"
  with call_updates[OF e] show "count auxn' = count auxn + 1"
    by (simp add: count_def)
next
  assume "JG_MOCK_function mock_impl_base_void_impl auxv params w v = (cv, auxv', wv', vv')
        \<and> func auxv = Some g"
  then have e: "JG_MOCK_function mock_impl_base_void_impl auxv params w v = (cv, auxv', wv', vv')"
    and f: "func auxv = Some g" by simp_all
  from void_call_with_func[OF e f]
  show "g \<lparr>seen_count = count auxv, seen_params = m_params auxv'\<rparr> params w = (cv, wv')" by simp
  fix e' assume "cv = Throws e'"
  with call_updates[OF e] show "count auxv' = count auxv + 1"
    by (simp add: count_def)
qed

text \<open>
  A callable that throws when it sees \<open>count() == 3\<close>, called on a mock with
  \<open>count() == 3\<close>: the call throws and \<open>count()\<close> is 4 afterwards. The same for a
  \<open>void g()\<close> that has not been called yet.
\<close>

theorem call_increments_count_once_witness:
  "JG_MOCK_function (mock_impl_base_impl (verified_operator_T Abort_on_failure))
      \<lparr>result = verified (0::int), m_params = [0::int],
        func = Some (\<lambda>s ps (n::nat). (if seen_count s = 3 then Throws ''boom'' else Returns 1, Suc n)),
        m_count = 3, m_prototype = ''int f(int)''\<rparr> [9] 10 0
    = (Throws ''boom'',
       \<lparr>result = verified (0::int), m_params = [9::int],
        func = Some (\<lambda>s ps (n::nat). (if seen_count s = 3 then Throws ''boom'' else Returns 1, Suc n)),
        m_count = 4, m_prototype = ''int f(int)''\<rparr>, 11, 0)
   \<and> exits (Throws ''boom'' :: (int, string) completion)
   \<and> count \<lparr>result = verified (0::int), m_params = [9::int],
        func = Some (\<lambda>s ps (n::nat). (if seen_count s = 3 then Throws ''boom'' :: (int, string) completion else Returns 1, Suc n)),
        m_count = 4, m_prototype = ''int f(int)''\<rparr> = 3 + 1
   \<and> JG_MOCK_function mock_impl_base_void_impl
      \<lparr>result = (), m_params = [],
        func = Some (\<lambda>s (ps::int list) (n::nat). (if seen_count s = 0 then Throws ''bang'' else Returns (), Suc n)),
        m_count = 0, m_prototype = ''void g()''\<rparr> [] 10 0
    = (Throws ''bang'',
       \<lparr>result = (), m_params = [],
        func = Some (\<lambda>s (ps::int list) (n::nat). (if seen_count s = 0 then Throws ''bang'' else Returns (), Suc n)),
        m_count = 1, m_prototype = ''void g()''\<rparr>, 11, 0)
   \<and> count \<lparr>result = (), m_params = [],
        func = Some (\<lambda>s (ps::int list) (n::nat). (if seen_count s = 0 then Throws ''bang'' :: (unit, string) completion else Returns (), Suc n)),
        m_count = 1, m_prototype = ''void g()''\<rparr> = 0 + 1"
proof -
  let ?f = "\<lambda>(s::int seen) (ps::int list) (n::nat). (if seen_count s = 3 then Throws ''boom'' :: (int, string) completion else Returns 1, Suc n)"
  let ?aux = "\<lparr>result = verified (0::int), m_params = [0::int], func = Some ?f, m_count = 3, m_prototype = ''int f(int)''\<rparr>"
  let ?aux' = "\<lparr>result = verified (0::int), m_params = [9::int], func = Some ?f, m_count = 4, m_prototype = ''int f(int)''\<rparr>"
  let ?g = "\<lambda>(s::int seen) (ps::int list) (n::nat). (if seen_count s = 0 then Throws ''bang'' :: (unit, string) completion else Returns (), Suc n)"
  let ?auxv = "\<lparr>result = (), m_params = [], func = Some ?g, m_count = 0, m_prototype = ''void g()''\<rparr>"
  let ?auxv' = "\<lparr>result = (), m_params = [], func = Some ?g, m_count = 1, m_prototype = ''void g()''\<rparr>"
  have e: "JG_MOCK_function (mock_impl_base_impl (verified_operator_T Abort_on_failure)) ?aux [9] 10 0
      = (Throws ''boom'', ?aux', 11, 0)"
    by (simp add: JG_MOCK_function_def mock_impl_impl_def mock_impl_base_impl_def set_params_def
        mock_impl_dtor_def seen_def count_def)
  have ev: "JG_MOCK_function mock_impl_base_void_impl ?auxv [] 10 0 = (Throws ''bang'', ?auxv', 11, 0)"
    by (simp add: JG_MOCK_function_def mock_impl_impl_def mock_impl_base_void_impl_def
        mock_impl_dtor_def seen_def count_def)
  have x: "exits (Throws ''boom'' :: (int, string) completion)" by simp
  have 1: "count ?aux' = count ?aux + 1"
    by (rule call_increments_count_once[THEN conjunct1, THEN mp, OF conjI[OF e x]])
  have "func ?auxv = Some ?g" by simp
  from call_increments_count_once[THEN conjunct2, THEN conjunct2, THEN mp, OF conjI[OF ev this]]
  have 2: "count ?auxv' = count ?auxv + 1" by simp
  have c: "count ?aux = 3" "count ?auxv = 0" by (simp_all add: count_def)
  show ?thesis
    using e x 1 ev 2 unfolding c by (intro conjI)
qed

text \<open>
  C4. When \<open>func\<close> holds a callable, the call is resolved by that callable, applied to
  the arguments the caller passed: its completion (a value or an exception) and its effect
  on the outer state are the call's. \<open>result\<close> is not read: nothing is verified
  (\<open>violations\<close> is unchanged), \<open>result\<close> keeps its content, assigned or not, and the
  call is the same with any other \<open>operator T()\<close> in place of the real one. The call leaves
  \<open>func\<close> in place, so every later call resolves the same way. The same holds for
  \<open>void\<close>, where the callable's side effect is the outcome.
\<close>

theorem func_overrides_result:
  "(func aux = Some f \<and>
      JG_MOCK_function (mock_impl_base_impl operator_T) aux params w v = (c, aux', w', v')
    \<longrightarrow> f \<lparr>seen_count = count aux, seen_params = m_params aux'\<rparr> params w = (c, w')
        \<and> v' = v \<and> result aux' = result aux \<and> func aux' = Some f
        \<and> JG_MOCK_function (mock_impl_base_impl other_operator_T) aux params w v = (c, aux', w', v'))
   \<and> (func auxv = Some g \<and>
      JG_MOCK_function mock_impl_base_void_impl auxv params w v = (cv, auxv', wv', vv')
    \<longrightarrow> g \<lparr>seen_count = count auxv, seen_params = m_params auxv'\<rparr> params w = (cv, wv')
        \<and> vv' = v \<and> func auxv' = Some g)"
proof (intro conjI impI)
  assume "func aux = Some f \<and>
      JG_MOCK_function (mock_impl_base_impl operator_T) aux params w v = (c, aux', w', v')"
  then have f: "func aux = Some f"
    and e: "JG_MOCK_function (mock_impl_base_impl operator_T) aux params w v = (c, aux', w', v')"
    by simp_all
  from call_with_func[OF e f]
  show "f \<lparr>seen_count = count aux, seen_params = m_params aux'\<rparr> params w = (c, w')"
    and "v' = v" by simp_all
  from call_updates[OF e] f show "result aux' = result aux" and "func aux' = Some f" by simp_all
  have "mock_impl_base_impl other_operator_T a params w v = mock_impl_base_impl operator_T a params w v"
    if "func a = Some f" for a
    using that by (simp add: mock_impl_base_impl_def)
  with f e show "JG_MOCK_function (mock_impl_base_impl other_operator_T) aux params w v = (c, aux', w', v')"
    by (cases params) (simp_all add: JG_MOCK_function_def mock_impl_impl_def set_params_def)
next
  assume "func auxv = Some g \<and>
      JG_MOCK_function mock_impl_base_void_impl auxv params w v = (cv, auxv', wv', vv')"
  then have f: "func auxv = Some g"
    and e: "JG_MOCK_function mock_impl_base_void_impl auxv params w v = (cv, auxv', wv', vv')"
    by simp_all
  from void_call_with_func[OF e f]
  show "g \<lparr>seen_count = count auxv, seen_params = m_params auxv'\<rparr> params w = (cv, wv')"
    and "vv' = v" by simp_all
  from call_updates[OF e] f show "func auxv' = Some g" by simp
qed

text \<open>
  Both set: \<open>result = 5\<close> and a callable that doubles its argument. The call with 21
  returns 42, also when reading \<open>result\<close> would terminate the process. For \<open>void\<close>: a
  callable that adds its argument to the outer state.
\<close>

theorem func_overrides_result_witness:
  "func \<lparr>result = verified_assign 5 (verified (0::int)), m_params = [0::int],
          func = Some (\<lambda>s ps (n::nat). (Returns (2 * hd ps) :: (int, string) completion, Suc n)),
          m_count = 0, m_prototype = ''int f(int)''\<rparr>
     = Some (\<lambda>s ps (n::nat). (Returns (2 * hd ps), Suc n))
   \<and> result \<lparr>result = verified_assign 5 (verified (0::int)), m_params = [0::int],
          func = Some (\<lambda>s ps (n::nat). (Returns (2 * hd ps) :: (int, string) completion, Suc n)),
          m_count = 0, m_prototype = ''int f(int)''\<rparr> = \<lparr>value = 5, assigned = True\<rparr>
   \<and> JG_MOCK_function (mock_impl_base_impl (verified_operator_T Abort_on_failure))
      \<lparr>result = verified_assign 5 (verified (0::int)), m_params = [0::int],
        func = Some (\<lambda>s ps (n::nat). (Returns (2 * hd ps) :: (int, string) completion, Suc n)),
        m_count = 0, m_prototype = ''int f(int)''\<rparr> [21] 10 0
    = (Returns 42,
       \<lparr>result = verified_assign 5 (verified (0::int)), m_params = [21::int],
        func = Some (\<lambda>s ps (n::nat). (Returns (2 * hd ps), Suc n)),
        m_count = 1, m_prototype = ''int f(int)''\<rparr>, 11, 0)
   \<and> JG_MOCK_function (mock_impl_base_impl (\<lambda>slot violations. (Aborts, violations)))
      \<lparr>result = verified_assign 5 (verified (0::int)), m_params = [0::int],
        func = Some (\<lambda>s ps (n::nat). (Returns (2 * hd ps) :: (int, string) completion, Suc n)),
        m_count = 0, m_prototype = ''int f(int)''\<rparr> [21] 10 0
    = (Returns 42,
       \<lparr>result = verified_assign 5 (verified (0::int)), m_params = [21::int],
        func = Some (\<lambda>s ps (n::nat). (Returns (2 * hd ps), Suc n)),
        m_count = 1, m_prototype = ''int f(int)''\<rparr>, 11, 0)
   \<and> JG_MOCK_function mock_impl_base_void_impl
      \<lparr>result = (), m_params = [0::int],
        func = Some (\<lambda>s ps (n::nat). (Returns () :: (unit, string) completion, n + nat (hd ps))),
        m_count = 0, m_prototype = ''void g(int)''\<rparr> [21] 10 0
    = (Returns (),
       \<lparr>result = (), m_params = [21::int],
        func = Some (\<lambda>s ps (n::nat). (Returns (), n + nat (hd ps))),
        m_count = 1, m_prototype = ''void g(int)''\<rparr>, 31, 0)
   \<and> (\<lambda>(s::int seen) ps (n::nat). (Returns () :: (unit, string) completion, n + nat (hd ps)))
        \<lparr>seen_count = 0, seen_params = [21]\<rparr> [21] 10 = (Returns (), 31)"
proof -
  let ?f = "\<lambda>(s::int seen) (ps::int list) (n::nat). (Returns (2 * hd ps) :: (int, string) completion, Suc n)"
  let ?aux = "\<lparr>result = verified_assign 5 (verified (0::int)), m_params = [0::int], func = Some ?f, m_count = 0, m_prototype = ''int f(int)''\<rparr>"
  let ?aux' = "\<lparr>result = verified_assign 5 (verified (0::int)), m_params = [21::int], func = Some ?f, m_count = 1, m_prototype = ''int f(int)''\<rparr>"
  let ?g = "\<lambda>(s::int seen) (ps::int list) (n::nat). (Returns () :: (unit, string) completion, n + nat (hd ps))"
  let ?auxv = "\<lparr>result = (), m_params = [0::int], func = Some ?g, m_count = 0, m_prototype = ''void g(int)''\<rparr>"
  let ?auxv' = "\<lparr>result = (), m_params = [21::int], func = Some ?g, m_count = 1, m_prototype = ''void g(int)''\<rparr>"
  have f: "func ?aux = Some ?f" by simp
  have r: "result ?aux = \<lparr>value = 5, assigned = True\<rparr>"
    by (simp add: verified_assign_def verified_def)
  have e: "JG_MOCK_function (mock_impl_base_impl (verified_operator_T Abort_on_failure)) ?aux [21] 10 0
      = (Returns 42, ?aux', 11, 0)"
    by (simp add: JG_MOCK_function_def mock_impl_impl_def mock_impl_base_impl_def set_params_def
        mock_impl_dtor_def seen_def count_def)
  from func_overrides_result[where other_operator_T = "\<lambda>slot violations. (Aborts, violations)",
      THEN conjunct1, THEN mp, OF conjI[OF f e]]
  have o: "JG_MOCK_function (mock_impl_base_impl (\<lambda>slot violations. (Aborts, violations))) ?aux [21] 10 0
      = (Returns 42, ?aux', 11, 0)" by simp
  have fv: "func ?auxv = Some ?g" by simp
  have ev: "JG_MOCK_function mock_impl_base_void_impl ?auxv [21] 10 0 = (Returns (), ?auxv', 31, 0)"
    by (simp add: JG_MOCK_function_def mock_impl_impl_def mock_impl_base_void_impl_def set_params_def
        mock_impl_dtor_def seen_def count_def)
  from func_overrides_result[THEN conjunct2, THEN mp, OF conjI[OF fv ev]]
  have g: "?g \<lparr>seen_count = 0, seen_params = [21]\<rparr> [21] 10 = (Returns (), 31)"
    by (simp add: count_def)
  show ?thesis
    using f r e o ev g by (intro conjI)
qed

text \<open>
  C5 (as amended). After a call with arguments \<open>a1..ak\<close>, \<open>k \<ge> 1\<close>, \<open>param<i>()\<close> is
  \<open>ai\<close> for every \<open>i\<close> in \<open>1..k\<close>, whatever was captured before (\<open>m_params\<close> is
  replaced as a whole), and stays so until the next call or \<open>reset()\<close>: through any
  assignments to \<open>func\<close> and \<open>result\<close> that follow. The arguments are stored before the
  outcome is resolved: a callable in \<open>func\<close> already reads them through \<open>param<i>()\<close>
  while it runs.
\<close>

theorem params_are_captured:
  "(run base_impl assign r0 p0 (before @ Call params # after) s = Some (aux', w', v')
      \<and> (\<forall>a\<in>set after. is_assignment a) \<and> 1 \<le> i \<and> i \<le> length params
    \<longrightarrow> param i aux' = Some (params ! (i - 1)) \<and> m_params aux' = params)
   \<and> (params \<noteq> [] \<and> func auxn = Some f \<and>
      JG_MOCK_function (mock_impl_base_impl operator_T) auxn params w v = (cn, auxn', wn', vn')
    \<longrightarrow> f \<lparr>seen_count = count auxn, seen_params = params\<rparr> params w = (cn, wn'))
   \<and> (params \<noteq> [] \<and> func auxv = Some g \<and>
      JG_MOCK_function mock_impl_base_void_impl auxv params w v = (cv, auxv', wv', vv')
    \<longrightarrow> g \<lparr>seen_count = count auxv, seen_params = params\<rparr> params w = (cv, wv'))"
proof (intro conjI impI)
  assume h: "run base_impl assign r0 p0 (before @ Call params # after) s = Some (aux', w', v')
      \<and> (\<forall>a\<in>set after. is_assignment a) \<and> 1 \<le> i \<and> i \<le> length params"
  then have ne: "params \<noteq> []" by auto
  from h obtain s1 where "run base_impl assign r0 p0 before s = Some s1"
    and r1: "run base_impl assign r0 p0 (Call params # after) s1 = Some (aux', w', v')"
    by (auto simp: run_append split: option.splits)
  obtain aux1 w1 v1 where s1: "s1 = (aux1, w1, v1)" by (cases s1)
  from r1[unfolded s1] obtain aux2 w2 v2 where
    st: "step base_impl assign r0 p0 (Call params) (aux1, w1, v1) = Some (aux2, w2, v2)"
    and r2: "run base_impl assign r0 p0 after (aux2, w2, v2) = Some (aux', w', v')"
    by (rule run_Cons_Some)
  from step_Call[OF st] obtain c where "JG_MOCK_function base_impl aux1 params w1 v1 = (c, aux2, w2, v2)"
    by blast
  from call_updates[OF this] ne have "m_params aux2 = params" by simp
  moreover from h have "\<forall>a\<in>set after. is_assignment a" by simp
  from run_assignments_keep[OF r2 this] have "m_params aux' = m_params aux2" .
  ultimately show p: "m_params aux' = params" by simp
  from h p show "param i aux' = Some (params ! (i - 1))" by (simp add: param_def)
next
  assume "params \<noteq> [] \<and> func auxn = Some f \<and>
      JG_MOCK_function (mock_impl_base_impl operator_T) auxn params w v = (cn, auxn', wn', vn')"
  then have ne: "params \<noteq> []" and f: "func auxn = Some f"
    and e: "JG_MOCK_function (mock_impl_base_impl operator_T) auxn params w v = (cn, auxn', wn', vn')"
    by simp_all
  from call_updates[OF e] ne have "m_params auxn' = params" by simp
  with call_with_func[OF e f]
  show "f \<lparr>seen_count = count auxn, seen_params = params\<rparr> params w = (cn, wn')" by simp
next
  assume "params \<noteq> [] \<and> func auxv = Some g \<and>
      JG_MOCK_function mock_impl_base_void_impl auxv params w v = (cv, auxv', wv', vv')"
  then have ne: "params \<noteq> []" and f: "func auxv = Some g"
    and e: "JG_MOCK_function mock_impl_base_void_impl auxv params w v = (cv, auxv', wv', vv')"
    by simp_all
  from call_updates[OF e] ne have "m_params auxv' = params" by simp
  with void_call_with_func[OF e f]
  show "g \<lparr>seen_count = count auxv, seen_params = params\<rparr> params w = (cv, wv')" by simp
qed

text \<open>
  As stated, with the next call as the only thing that ends the capture, C5 fails:
  \<open>reset()\<close> assigns a newly constructed \<open>mock_aux\<close>, so after \<open>f(5)\<close> and
  \<open>reset()\<close>, with no call in between, \<open>param<1>()\<close> is 0 again.
\<close>

theorem params_are_captured_counterexample:
  "run mock_impl_base_void_impl (\<lambda>x slot. slot) () [0] [Call [5], Reset]
       (mock_aux () [0::int] ''void f(int)'' :: (unit, unit, int, unit, unit) mock_aux, (), 0)
     = Some (\<lparr>result = (), m_params = [0], func = None, m_count = 0, m_prototype = ''void f(int)''\<rparr>, (), 0)
   \<and> calls_since_reset 0 ([Call [5::int], Reset] :: (unit, unit, int, unit, unit) action list) = 0
   \<and> param 1 (\<lparr>result = (), m_params = [0::int], func = None, m_count = 0, m_prototype = ''void f(int)''\<rparr>
         :: (unit, unit, int, unit, unit) mock_aux) = Some 0
   \<and> param 1 (\<lparr>result = (), m_params = [0::int], func = None, m_count = 0, m_prototype = ''void f(int)''\<rparr>
         :: (unit, unit, int, unit, unit) mock_aux) \<noteq> Some 5"
  by (simp add: JG_MOCK_function_def mock_impl_impl_def mock_impl_base_void_impl_def set_params_def
        mock_impl_dtor_def reset_def mock_aux_def param_def trim_def trim_left_def trim_right_def)

text \<open>
  \<open>void f(int, int)\<close> called with (1, 2), then with (3, 4), then \<open>func\<close> assigned:
  \<open>param<1>() == 3\<close> and \<open>param<2>() == 4\<close>. A callable that throws unless the
  captured parameters are its arguments returns, on a mock that held (3, 4) and is called
  with (5, 6).
\<close>

theorem params_are_captured_witness:
  "run mock_impl_base_void_impl (\<lambda>x slot. slot) () [0, 0]
      ([Call [1, 2]] @ Call [3, 4] # [Assign_func (Some (\<lambda>s ps (n::nat). (Returns (), Suc n)))])
      (mock_aux () [0::int, 0] ''void f(int, int)'' :: (unit, unit, int, nat, unit) mock_aux, 0, 0)
    = Some (\<lparr>result = (), m_params = [3, 4], func = Some (\<lambda>s ps (n::nat). (Returns (), Suc n)),
             m_count = 2, m_prototype = ''void f(int, int)''\<rparr>, 0, 0)
   \<and> param 1 \<lparr>result = (), m_params = [3::int, 4], func = Some (\<lambda>s ps (n::nat). (Returns () :: (unit, unit) completion, Suc n)),
             m_count = 2, m_prototype = ''void f(int, int)''\<rparr> = Some 3
   \<and> param 2 \<lparr>result = (), m_params = [3::int, 4], func = Some (\<lambda>s ps (n::nat). (Returns () :: (unit, unit) completion, Suc n)),
             m_count = 2, m_prototype = ''void f(int, int)''\<rparr> = Some 4
   \<and> JG_MOCK_function mock_impl_base_void_impl
        \<lparr>result = (), m_params = [3::int, 4],
          func = Some (\<lambda>s ps (n::nat). (if seen_params s = ps then Returns () else Throws ''stale'', n)),
          m_count = 2, m_prototype = ''void f(int, int)''\<rparr> [5, 6] 0 0
      = (Returns (),
         \<lparr>result = (), m_params = [5, 6],
          func = Some (\<lambda>s ps (n::nat). (if seen_params s = ps then Returns () else Throws ''stale'', n)),
          m_count = 3, m_prototype = ''void f(int, int)''\<rparr>, 0, 0)
   \<and> JG_MOCK_function (mock_impl_base_impl (verified_operator_T Abort_on_failure))
        \<lparr>result = verified (0::int), m_params = [3::int, 4],
          func = Some (\<lambda>s ps (n::nat). (if seen_params s = ps then Returns 1 else Throws ''stale'', n)),
          m_count = 2, m_prototype = ''int g(int, int)''\<rparr> [5, 6] 0 0
      = (Returns 1,
         \<lparr>result = verified (0::int), m_params = [5, 6],
          func = Some (\<lambda>s ps (n::nat). (if seen_params s = ps then Returns 1 else Throws ''stale'', n)),
          m_count = 3, m_prototype = ''int g(int, int)''\<rparr>, 0, 0)"
proof -
  let ?f = "Some (\<lambda>(s::int seen) (ps::int list) (n::nat). (Returns () :: (unit, unit) completion, Suc n))"
  let ?end = "\<lparr>result = (), m_params = [3::int, 4], func = ?f, m_count = 2, m_prototype = ''void f(int, int)''\<rparr>"
  have r: "run mock_impl_base_void_impl (\<lambda>x slot. slot) () [0, 0]
      ([Call [1, 2]] @ Call [3, 4] # [Assign_func ?f])
      (mock_aux () [0::int, 0] ''void f(int, int)'', 0, 0) = Some (?end, 0, 0)"
    by (simp add: JG_MOCK_function_def mock_impl_impl_def mock_impl_base_void_impl_def set_params_def
        mock_impl_dtor_def mock_aux_def seen_def count_def trim_def trim_left_def trim_right_def)
  have a: "\<forall>a\<in>set [Assign_func ?f]. is_assignment a" by simp
  note t = params_are_captured[THEN conjunct1, rule_format, of mock_impl_base_void_impl "\<lambda>x slot. slot" "()" "[0, 0]"
      "[Call [1, 2]]" "[3, 4]" "[Assign_func ?f]" "(mock_aux () [0::int, 0] ''void f(int, int)'', 0, 0)" ?end 0 0]
  from t[of 1] r a have 1: "param 1 ?end = Some 3" by simp
  from t[of 2] r a have 2: "param 2 ?end = Some 4" by simp
  let ?g = "\<lambda>(s::int seen) (ps::int list) (n::nat). (if seen_params s = ps then Returns () else Throws ''stale'' :: (unit, string) completion, n)"
  let ?auxv = "\<lparr>result = (), m_params = [3::int, 4], func = Some ?g, m_count = 2, m_prototype = ''void f(int, int)''\<rparr>"
  let ?auxv' = "\<lparr>result = (), m_params = [5::int, 6], func = Some ?g, m_count = 3, m_prototype = ''void f(int, int)''\<rparr>"
  let ?h = "\<lambda>(s::int seen) (ps::int list) (n::nat). (if seen_params s = ps then Returns 1 else Throws ''stale'' :: (int, string) completion, n)"
  let ?auxn = "\<lparr>result = verified (0::int), m_params = [3::int, 4], func = Some ?h, m_count = 2, m_prototype = ''int g(int, int)''\<rparr>"
  let ?auxn' = "\<lparr>result = verified (0::int), m_params = [5::int, 6], func = Some ?h, m_count = 3, m_prototype = ''int g(int, int)''\<rparr>"
  obtain cv av wv vv where ev: "JG_MOCK_function mock_impl_base_void_impl ?auxv [5, 6] 0 0 = (cv, av, wv, vv)"
    by (metis prod_cases4)
  have "[5::int, 6] \<noteq> [] \<and> func ?auxv = Some ?g \<and>
      JG_MOCK_function mock_impl_base_void_impl ?auxv [5, 6] 0 0 = (cv, av, wv, vv)"
    using ev by simp
  from params_are_captured[THEN conjunct2, THEN conjunct2, THEN mp, OF this]
  have "(cv, wv) = (Returns (), 0)" by simp
  moreover from call_updates[OF ev] have "av = ?auxv\<lparr>m_params := [5, 6], m_count := (if exits cv then 3 else 2)\<rparr>"
    by simp
  moreover from call_resolves[OF ev] have "vv = 0"
    by (simp add: mock_impl_base_void_impl_def split: prod.splits)
  ultimately have 3: "JG_MOCK_function mock_impl_base_void_impl ?auxv [5, 6] 0 0 = (Returns (), ?auxv', 0, 0)"
    using ev by simp
  obtain cn an wn vn where en: "JG_MOCK_function (mock_impl_base_impl (verified_operator_T Abort_on_failure)) ?auxn [5, 6] 0 0 = (cn, an, wn, vn)"
    by (metis prod_cases4)
  have "[5::int, 6] \<noteq> [] \<and> func ?auxn = Some ?h \<and>
      JG_MOCK_function (mock_impl_base_impl (verified_operator_T Abort_on_failure)) ?auxn [5, 6] 0 0 = (cn, an, wn, vn)"
    using en by simp
  from params_are_captured[THEN conjunct2, THEN conjunct1, THEN mp, OF this]
  have "(cn, wn) = (Returns 1, 0)" by simp
  moreover from call_updates[OF en] have "an = ?auxn\<lparr>m_params := [5, 6], m_count := (if exits cn then 3 else 2)\<rparr>"
    by simp
  moreover from call_resolves[OF en] have "vn = 0"
    by (simp add: mock_impl_base_impl_def split: prod.splits)
  ultimately have 4: "JG_MOCK_function (mock_impl_base_impl (verified_operator_T Abort_on_failure)) ?auxn [5, 6] 0 0 = (Returns 1, ?auxn', 0, 0)"
    using en by simp
  show ?thesis
    using r 1 2 3 4 by (intro conjI)
qed

text \<open>
  C6. In every state a test can bring a mock to from its construction, \<open>reset()\<close> gives
  \<open>count() == 0\<close> and \<open>called() == false\<close>, an empty \<open>func\<close>, the value-initialised
  parameter tuple (so \<open>param<i>()\<close> is the default again), the default-constructed
  \<open>result\<close>, which is unassigned for both \<open>verified\<close> specialisations, and the same
  \<open>prototype()\<close> as before: the mock is back in its constructed state. \<open>reset()\<close> passes
  \<open>m_prototype\<close> through the constructor, which trims it again; the string is unchanged
  because it was trimmed already (\<open>trim\<close> as modelled from the spec).
\<close>

theorem reset_restores_constructed_state:
  "(run base_impl assign r0 p0 acts (mock_aux r0 p0 proto, w, v) = Some (aux, w', v') \<longrightarrow>
      count (reset r0 p0 aux) = 0 \<and> \<not> called (reset r0 p0 aux) \<and> func (reset r0 p0 aux) = None
      \<and> m_params (reset r0 p0 aux) = p0 \<and> result (reset r0 p0 aux) = r0
      \<and> (\<forall>i. 1 \<le> i \<and> i \<le> length p0 \<longrightarrow> param i (reset r0 p0 aux) = Some (p0 ! (i - 1)))
      \<and> prototype (reset r0 p0 aux) = prototype aux
      \<and> reset r0 p0 aux = mock_aux r0 p0 proto)
   \<and> \<not> assigned (result (reset (verified d) p0 auxn))
   \<and> \<not> assigned_ref (result (reset verified_ref p0 auxr))"
proof (intro conjI impI allI)
  assume r: "run base_impl assign r0 p0 acts (mock_aux r0 p0 proto, w, v) = Some (aux, w', v')"
  have p: "m_prototype aux = trim proto '' ''"
    by (rule run_from_constructed_prototype[OF r])
  show "count (reset r0 p0 aux) = 0" by (simp add: count_def reset_def mock_aux_def)
  show "\<not> called (reset r0 p0 aux)" by (simp add: called_def reset_def mock_aux_def)
  show "func (reset r0 p0 aux) = None" by (simp add: reset_def mock_aux_def)
  show "m_params (reset r0 p0 aux) = p0" by (simp add: reset_def mock_aux_def)
  show "result (reset r0 p0 aux) = r0" by (simp add: reset_def mock_aux_def)
  show "prototype (reset r0 p0 aux) = prototype aux"
    by (simp add: prototype_def reset_def mock_aux_def p trim_idem)
  show "reset r0 p0 aux = mock_aux r0 p0 proto"
    by (simp add: reset_def mock_aux_def p trim_idem)
  fix i assume "1 \<le> i \<and> i \<le> length p0"
  then show "param i (reset r0 p0 aux) = Some (p0 ! (i - 1))"
    by (simp add: param_def reset_def mock_aux_def)
next
  show "\<not> assigned (result (reset (verified d) p0 auxn))"
    by (simp add: reset_def mock_aux_def verified_def)
  show "\<not> assigned_ref (result (reset verified_ref p0 auxr))"
    by (simp add: reset_def mock_aux_def verified_ref_def)
qed

text \<open>
  The example of the spec: \<open>count() == 3\<close>, a callable set, \<open>prototype() == "int foo(int)"\<close>.
  After \<open>reset()\<close> the mock is as constructed and \<open>param<1>()\<close> is the default.
\<close>

theorem reset_restores_constructed_state_witness:
  "run (mock_impl_base_impl (verified_operator_T Abort_on_failure)) verified_assign (verified 0) [0]
      [Assign_func (Some (\<lambda>s ps (w::unit). (Returns (hd ps) :: (int, unit) completion, w))), Call [5], Call [6], Call [7]]
      (mock_aux (verified (0::int)) [0::int] ''int foo(int) '', (), 0)
    = Some (\<lparr>result = \<lparr>value = 0, assigned = False\<rparr>, m_params = [7],
             func = Some (\<lambda>s ps w. (Returns (hd ps), w)), m_count = 3, m_prototype = ''int foo(int)''\<rparr>, (), 0)
   \<and> reset (verified 0) [0]
        \<lparr>result = \<lparr>value = 0::int, assigned = False\<rparr>, m_params = [7::int],
          func = Some (\<lambda>s ps (w::unit). (Returns (hd ps) :: (int, unit) completion, w)), m_count = 3, m_prototype = ''int foo(int)''\<rparr>
      = \<lparr>result = \<lparr>value = 0, assigned = False\<rparr>, m_params = [0],
          func = None, m_count = 0, m_prototype = ''int foo(int)''\<rparr>
   \<and> param 1 (reset (verified 0) [0]
        \<lparr>result = \<lparr>value = 0::int, assigned = False\<rparr>, m_params = [7::int],
          func = Some (\<lambda>s ps (w::unit). (Returns (hd ps) :: (int, unit) completion, w)), m_count = 3, m_prototype = ''int foo(int)''\<rparr>)
      = Some 0"
proof -
  let ?f = "Some (\<lambda>(s::int seen) (ps::int list) (w::unit). (Returns (hd ps) :: (int, unit) completion, w))"
  let ?aux = "\<lparr>result = \<lparr>value = 0::int, assigned = False\<rparr>, m_params = [7::int],
          func = ?f, m_count = 3, m_prototype = ''int foo(int)''\<rparr>"
  have r: "run (mock_impl_base_impl (verified_operator_T Abort_on_failure)) verified_assign (verified 0) [0]
      [Assign_func ?f, Call [5], Call [6], Call [7]]
      (mock_aux (verified (0::int)) [0::int] ''int foo(int) '', (), 0) = Some (?aux, (), 0)"
    by (simp add: JG_MOCK_function_def mock_impl_impl_def mock_impl_base_impl_def set_params_def
        mock_impl_dtor_def verified_def mock_aux_def seen_def count_def trim_def trim_left_def trim_right_def)
  have c: "mock_aux (verified (0::int)) [0::int] ''int foo(int) ''
      = (\<lparr>result = \<lparr>value = 0, assigned = False\<rparr>, m_params = [0],
          func = None, m_count = 0, m_prototype = ''int foo(int)''\<rparr> :: (int verified, int, int, unit, unit) mock_aux)"
    by (simp add: verified_def mock_aux_def trim_def trim_left_def trim_right_def)
  note t = reset_restores_constructed_state[THEN conjunct1, THEN mp, OF r]
  note t5 = t[THEN conjunct2, THEN conjunct2, THEN conjunct2, THEN conjunct2, THEN conjunct2]
  have 1: "reset (verified 0) [0] ?aux = mock_aux (verified (0::int)) [0::int] ''int foo(int) ''"
    by (rule t5[THEN conjunct2, THEN conjunct2])
  from t5[THEN conjunct1, THEN spec, of 1] have 2: "param 1 (reset (verified 0) [0] ?aux) = Some 0"
    by simp
  show ?thesis
    using r 1[unfolded c] 2 by (intro conjI)
qed

text \<open>
  C7. \<open>prototype()\<close> of a mock constructed from a string \<open>s\<close> is \<open>trim(s, " ")\<close>, and
  for a mock that \<open>JG_MOCK\<close> defines \<open>s\<close> is
  \<open>"<return-type> <name>(<parameter-type-list>) <post-qualifiers>"\<close>. With \<open>trim\<close> as
  modelled from the spec, \<open>prototype()\<close> is \<open>s\<close> without the spaces around it: \<open>s\<close> is
  \<open>prototype()\<close> between two runs of spaces, and \<open>prototype()\<close> neither starts nor ends
  with a space.
\<close>

theorem prototype_is_trimmed_signature:
  "prototype (mock_aux r0 p0 s) = trim s '' ''
   \<and> prototype (mock_aux r0 p0 (JG_MOCK_prototype return_type function_name va_args suffix))
       = trim (return_type @ '' '' @ function_name @ ''('' @ va_args @ '') '' @ suffix) '' ''
   \<and> (\<exists>n m. s = replicate n CHR '' '' @ trim s '' '' @ replicate m CHR '' '')
   \<and> (trim s '' '' \<noteq> [] \<longrightarrow> hd (trim s '' '') \<noteq> CHR '' '' \<and> last (trim s '' '') \<noteq> CHR '' '')"
proof (intro conjI impI)
  show "prototype (mock_aux r0 p0 s) = trim s '' ''"
    by (simp add: prototype_def mock_aux_def)
  show "prototype (mock_aux r0 p0 (JG_MOCK_prototype return_type function_name va_args suffix))
       = trim (return_type @ '' '' @ function_name @ ''('' @ va_args @ '') '' @ suffix) '' ''"
    by (simp add: prototype_def mock_aux_def JG_MOCK_prototype_def)
  obtain ys zs where s: "s = ys @ trim s '' '' @ zs" and ys: "set ys \<subseteq> set '' ''" and zs: "set zs \<subseteq> set '' ''"
    using trim_surrounded by blast
  from ys have "replicate (length ys) CHR '' '' = ys"
    by (intro replicate_length_same) auto
  moreover from zs have "replicate (length zs) CHR '' '' = zs"
    by (intro replicate_length_same) auto
  ultimately have "s = replicate (length ys) CHR '' '' @ trim s '' '' @ replicate (length zs) CHR '' ''"
    using s by simp
  then show "\<exists>n m. s = replicate n CHR '' '' @ trim s '' '' @ replicate m CHR '' ''"
    by blast
next
  assume ne: "trim s '' '' \<noteq> []"
  from trim_hd[OF ne] show "hd (trim s '' '') \<noteq> CHR '' ''" by simp
  from trim_last[OF ne] show "last (trim s '' '') \<noteq> CHR '' ''" by simp
qed

text \<open>
  \<open>JG_MOCK(,,, int, foo, int)\<close> and \<open>JG_MOCK(, const,, int, foo, int)\<close>.
\<close>

theorem prototype_is_trimmed_signature_witness:
  "prototype (mock_aux () [0::int] (JG_MOCK_prototype ''int'' ''foo'' ''int'' '''') :: (unit, unit, int, unit, unit) mock_aux)
     = ''int foo(int)''
   \<and> prototype (mock_aux () [0::int] (JG_MOCK_prototype ''int'' ''foo'' ''int'' ''const'') :: (unit, unit, int, unit, unit) mock_aux)
     = ''int foo(int) const''
   \<and> trim ''int foo(int) '' '' '' \<noteq> []
   \<and> hd (trim ''int foo(int) '' '' '') \<noteq> CHR '' ''
   \<and> last (trim ''int foo(int) '' '' '') \<noteq> CHR '' ''"
proof -
  note t = prototype_is_trimmed_signature[of "()" "[0::int]" "''int foo(int) ''" "''int''" "''foo''" "''int''"]
  have e: "trim ''int foo(int) '' '' '' = ''int foo(int)''"
    by (simp add: trim_def trim_left_def trim_right_def)
  have e2: "trim ''int foo(int) const'' '' '' = ''int foo(int) const''"
    by (simp add: trim_def trim_left_def trim_right_def)
  from t[of "''''", THEN conjunct2, THEN conjunct1] e
  have 1: "prototype (mock_aux () [0::int] (JG_MOCK_prototype ''int'' ''foo'' ''int'' '''') :: (unit, unit, int, unit, unit) mock_aux)
     = ''int foo(int)''" by simp
  from t[of "''const''", THEN conjunct2, THEN conjunct1] e2
  have 2: "prototype (mock_aux () [0::int] (JG_MOCK_prototype ''int'' ''foo'' ''int'' ''const'') :: (unit, unit, int, unit, unit) mock_aux)
     = ''int foo(int) const''" by simp
  from e have 3: "trim ''int foo(int) '' '' '' \<noteq> []" by simp
  from t[of "''''", THEN conjunct2, THEN conjunct2, THEN conjunct2, THEN mp, OF 3]
  have 4: "hd (trim ''int foo(int) '' '' '') \<noteq> CHR '' '' \<and> last (trim ''int foo(int) '' '' '') \<noteq> CHR '' ''" .
  show ?thesis by (rule conjI[OF 1 conjI[OF 2 conjI[OF 3 4]]])
qed

text \<open>
  C8. \<open>prototype()\<close> is a function of the state that changes nothing, so calling it again
  gives the same string as long as the state is the same. A call of the mock function, with
  any outcome, changes \<open>m_params\<close> and \<open>m_count\<close> and nothing else, so \<open>prototype()\<close>
  is the same after it. Through a whole run of a test (calls, assignments, \<open>reset()\<close>)
  \<open>prototype()\<close> stays what it was at construction.
\<close>

theorem prototype_never_mutated:
  "(JG_MOCK_function base_impl aux params w v = (c, aux', w', v') \<longrightarrow>
      prototype aux' = prototype aux
      \<and> aux' = aux\<lparr>m_params := m_params aux', m_count := m_count aux'\<rparr>)
   \<and> (run base_impl assign r0 p0 acts (mock_aux r0 p0 proto, w, v) = Some (auxr, wr, vr) \<longrightarrow>
      prototype auxr = prototype (mock_aux r0 p0 proto))"
proof (intro conjI impI)
  assume e: "JG_MOCK_function base_impl aux params w v = (c, aux', w', v')"
  from call_updates[OF e] show "prototype aux' = prototype aux"
    by (simp add: prototype_def)
  from call_updates[OF e] show "aux' = aux\<lparr>m_params := m_params aux', m_count := m_count aux'\<rparr>"
    by simp
next
  assume r: "run base_impl assign r0 p0 acts (mock_aux r0 p0 proto, w, v) = Some (auxr, wr, vr)"
  from run_from_constructed_prototype[OF r] show "prototype auxr = prototype (mock_aux r0 p0 proto)"
    by (simp add: prototype_def mock_aux_def)
qed

text \<open>
  One call of \<open>void f(int)\<close>, and a run with a call, a \<open>reset()\<close> and another call.
\<close>

theorem prototype_never_mutated_witness:
  "JG_MOCK_function mock_impl_base_void_impl
      (\<lparr>result = (), m_params = [0::int], func = None, m_count = 0, m_prototype = ''void f(int)''\<rparr>
         :: (unit, unit, int, unit, unit) mock_aux) [8] () 0
    = (Returns (), \<lparr>result = (), m_params = [8::int], func = None, m_count = 1, m_prototype = ''void f(int)''\<rparr>, (), 0)
   \<and> prototype \<lparr>result = (), m_params = [8::int], func = (None :: (unit, int, unit, unit) callable option),
         m_count = 1, m_prototype = ''void f(int)''\<rparr>
     = prototype \<lparr>result = (), m_params = [0::int], func = (None :: (unit, int, unit, unit) callable option),
         m_count = 0, m_prototype = ''void f(int)''\<rparr>
   \<and> run mock_impl_base_void_impl (\<lambda>x slot. slot) () [0] [Call [8], Reset, Call [9]]
        (mock_aux () [0::int] '' void f(int) '' :: (unit, unit, int, unit, unit) mock_aux, (), 0)
      = Some (\<lparr>result = (), m_params = [9], func = None, m_count = 1, m_prototype = ''void f(int)''\<rparr>, (), 0)
   \<and> prototype \<lparr>result = (), m_params = [9::int], func = (None :: (unit, int, unit, unit) callable option),
         m_count = 1, m_prototype = ''void f(int)''\<rparr>
     = prototype (mock_aux () [0::int] '' void f(int) '' :: (unit, unit, int, unit, unit) mock_aux)"
proof -
  let ?a0 = "\<lparr>result = (), m_params = [0::int], func = (None :: (unit, int, unit, unit) callable option),
         m_count = 0, m_prototype = ''void f(int)''\<rparr>"
  let ?a1 = "\<lparr>result = (), m_params = [8::int], func = (None :: (unit, int, unit, unit) callable option),
         m_count = 1, m_prototype = ''void f(int)''\<rparr>"
  let ?a2 = "\<lparr>result = (), m_params = [9::int], func = (None :: (unit, int, unit, unit) callable option),
         m_count = 1, m_prototype = ''void f(int)''\<rparr>"
  let ?c = "mock_aux () [0::int] '' void f(int) '' :: (unit, unit, int, unit, unit) mock_aux"
  have e: "JG_MOCK_function mock_impl_base_void_impl ?a0 [8] () 0 = (Returns (), ?a1, (), 0)"
    by (simp add: JG_MOCK_function_def mock_impl_impl_def mock_impl_base_void_impl_def set_params_def
        mock_impl_dtor_def)
  have r: "run mock_impl_base_void_impl (\<lambda>x slot. slot) () [0] [Call [8], Reset, Call [9]] (?c, (), 0)
      = Some (?a2, (), 0)"
    by (simp add: JG_MOCK_function_def mock_impl_impl_def mock_impl_base_void_impl_def set_params_def
        mock_impl_dtor_def reset_def mock_aux_def trim_def trim_left_def trim_right_def)
  from prototype_never_mutated[THEN conjunct1, rule_format, OF e]
  have 1: "prototype ?a1 = prototype ?a0" by simp
  from prototype_never_mutated[THEN conjunct2, rule_format, OF r]
  have 2: "prototype ?a2 = prototype ?c" by simp
  show ?thesis by (rule conjI[OF e conjI[OF 1 conjI[OF r 2]]])
qed

text \<open>
  C9. As long as no call was made since construction or since the last \<open>reset()\<close>,
  \<open>param<i>()\<close> for \<open>i\<close> in \<open>1..N\<close> is the value-initialised element \<open>i\<close> of the
  parameter tuple (\<open>p0 ! (i - 1)\<close>). \<open>param\<close> involves no \<open>verify\<close>: it returns the
  value and cannot fail.
\<close>

theorem param_is_default_before_first_call:
  "run base_impl assign r0 p0 acts (mock_aux r0 p0 proto, w, v) = Some (aux, w', v')
     \<and> calls_since_reset 0 acts = 0 \<and> 1 \<le> i \<and> i \<le> length p0
   \<longrightarrow> param i aux = Some (p0 ! (i - 1))"
proof
  assume h: "run base_impl assign r0 p0 acts (mock_aux r0 p0 proto, w, v) = Some (aux, w', v')
     \<and> calls_since_reset 0 acts = 0 \<and> 1 \<le> i \<and> i \<le> length p0"
  then have r: "run base_impl assign r0 p0 acts (mock_aux r0 p0 proto, w, v) = Some (aux, w', v')"
    by simp
  have "(0::nat) = 0 \<longrightarrow> m_params (mock_aux r0 p0 proto) = p0"
    by (simp add: mock_aux_def)
  from run_params_default[OF r this] h have "m_params aux = p0" by simp
  with h show "param i aux = Some (p0 ! (i - 1))" by (simp add: param_def)
qed

text \<open>
  A call followed by \<open>reset()\<close> and an assignment to \<open>result\<close>: \<open>param<2>()\<close> is the
  default of the second parameter.
\<close>

theorem param_is_default_before_first_call_witness:
  "run (mock_impl_base_impl (verified_operator_T Abort_on_failure)) verified_assign (verified 0) [0, 1]
      [Assign_result 3, Call [5, 6], Reset, Assign_result 4]
      (mock_aux (verified (0::int)) [0::int, 1] ''int f(int, int)'' :: (int verified, int, int, unit, unit) mock_aux, (), 0)
    = Some (\<lparr>result = \<lparr>value = 4, assigned = True\<rparr>, m_params = [0, 1], func = None, m_count = 0,
             m_prototype = ''int f(int, int)''\<rparr>, (), 0)
   \<and> calls_since_reset 0 [Assign_result (3::int), Call [5::int, 6], Reset, Assign_result 4 :: (int, int, int, unit, unit) action] = 0
   \<and> param 2 (\<lparr>result = \<lparr>value = 4::int, assigned = True\<rparr>, m_params = [0::int, 1], func = None, m_count = 0,
             m_prototype = ''int f(int, int)''\<rparr> :: (int verified, int, int, unit, unit) mock_aux) = Some 1"
proof -
  let ?acts = "[Assign_result (3::int), Call [5::int, 6], Reset, Assign_result 4 :: (int, int, int, unit, unit) action]"
  let ?end = "\<lparr>result = \<lparr>value = 4::int, assigned = True\<rparr>, m_params = [0::int, 1], func = None, m_count = 0,
             m_prototype = ''int f(int, int)''\<rparr> :: (int verified, int, int, unit, unit) mock_aux"
  have r: "run (mock_impl_base_impl (verified_operator_T Abort_on_failure)) verified_assign (verified 0) [0, 1]
      ?acts (mock_aux (verified (0::int)) [0::int, 1] ''int f(int, int)'', (), 0) = Some (?end, (), 0)"
    by (simp add: JG_MOCK_function_def mock_impl_impl_def mock_impl_base_impl_def set_params_def
        mock_impl_dtor_def verified_operator_T_def verify_def verified_assign_def verified_def
        reset_def mock_aux_def seen_def count_def trim_def trim_left_def trim_right_def)
  have n: "calls_since_reset 0 ?acts = 0" by simp
  from param_is_default_before_first_call[rule_format, of _ _ _ "[0, 1]" ?acts _ _ _ ?end _ _ 2] r n
  have "param 2 ?end = Some 1" by simp
  with r n show ?thesis by simp
qed

text \<open>
  C10. A \<open>verified<T>\<close> for a non-reference \<open>T\<close> is constructed with the
  value-initialised payload \<open>T{}\<close> (\<open>d\<close>) and unassigned, and so is the \<open>result\<close> of a
  new mock. With \<open>verify\<close> configured to log and continue, reading the box, unassigned,
  returns \<open>T{}\<close>; and in every state a test can bring the mock to, a call with no
  callable in \<open>func\<close> and \<open>result\<close> unassigned returns \<open>T{}\<close>, after \<open>verify\<close> has
  reported the violation.
\<close>

theorem unassigned_result_reads_value_initialised:
  "value (verified d) = d \<and> \<not> assigned (verified d)
   \<and> result (mock_aux (verified d) p0 proto) = verified d
   \<and> verified_operator_T Log_and_continue (verified d) v = (Returns d, Suc v)
   \<and> (run (mock_impl_base_impl (verified_operator_T Log_and_continue)) verified_assign (verified d) p0
         acts (mock_aux (verified d) p0 proto, w, v) = Some (aux, w1, v1)
       \<and> func aux = None \<and> \<not> assigned (result aux)
      \<longrightarrow> (case JG_MOCK_function (mock_impl_base_impl (verified_operator_T Log_and_continue)) aux params w1 v1 of
             (c, aux', w', v') \<Rightarrow> c = Returns d \<and> w' = w1 \<and> v' = Suc v1))"
proof (intro conjI impI)
  show "value (verified d) = d" and "\<not> assigned (verified d)"
    by (simp_all add: verified_def)
  show "result (mock_aux (verified d) p0 proto) = verified d"
    by (simp add: mock_aux_def)
  show "verified_operator_T Log_and_continue (verified d) v = (Returns d, Suc v)"
    by (simp add: verified_operator_T_def verify_def verified_def)
next
  let ?impl = "mock_impl_base_impl (verified_operator_T Log_and_continue)"
  assume h: "run ?impl verified_assign (verified d) p0 acts (mock_aux (verified d) p0 proto, w, v) = Some (aux, w1, v1)
       \<and> func aux = None \<and> \<not> assigned (result aux)"
  then have r: "run ?impl verified_assign (verified d) p0 acts (mock_aux (verified d) p0 proto, w, v) = Some (aux, w1, v1)"
    and f: "func aux = None" and u: "\<not> assigned (result aux)" by simp_all
  have "assigned (result (mock_aux (verified d) p0 proto)) \<or> value (result (mock_aux (verified d) p0 proto)) = d"
    by (simp add: mock_aux_def verified_def)
  from run_value_slot[OF r this] u have d: "value (result aux) = d" by simp
  obtain c aux' w' v' where e: "JG_MOCK_function ?impl aux params w1 v1 = (c, aux', w', v')"
    by (metis prod_cases4)
  from call_without_func[OF e f] have "verified_operator_T Log_and_continue (result aux) v1 = (c, v')" and "w' = w1"
    by simp_all
  then show "case JG_MOCK_function ?impl aux params w1 v1 of
             (c, aux', w', v') \<Rightarrow> c = Returns d \<and> w' = w1 \<and> v' = Suc v1"
    unfolding e read_unassigned[OF u] using d by simp
qed

text \<open>
  \<open>result\<close> assigned, then a call and a \<open>reset()\<close>: the next call returns 0.
\<close>

theorem unassigned_result_reads_value_initialised_witness:
  "run (mock_impl_base_impl (verified_operator_T Log_and_continue)) verified_assign (verified 0) [0]
      [Assign_result 7, Call [1], Reset]
      (mock_aux (verified (0::int)) [0::int] ''int f(int)'' :: (int verified, int, int, unit, unit) mock_aux, (), 0)
    = Some (\<lparr>result = \<lparr>value = 0, assigned = False\<rparr>, m_params = [0], func = None, m_count = 0,
             m_prototype = ''int f(int)''\<rparr>, (), 0)
   \<and> JG_MOCK_function (mock_impl_base_impl (verified_operator_T Log_and_continue))
        (\<lparr>result = \<lparr>value = 0::int, assigned = False\<rparr>, m_params = [0::int], func = None, m_count = 0,
             m_prototype = ''int f(int)''\<rparr> :: (int verified, int, int, unit, unit) mock_aux) [2] () 0
      = (Returns 0, \<lparr>result = \<lparr>value = 0, assigned = False\<rparr>, m_params = [2], func = None, m_count = 1,
             m_prototype = ''int f(int)''\<rparr>, (), 1)"
proof -
  let ?impl = "mock_impl_base_impl (verified_operator_T Log_and_continue) ::
     (int verified, int, int, unit, unit) mock_aux \<Rightarrow> int list \<Rightarrow> unit \<Rightarrow> nat \<Rightarrow> (int, unit) completion \<times> unit \<times> nat"
  let ?aux = "\<lparr>result = \<lparr>value = 0::int, assigned = False\<rparr>, m_params = [0::int], func = None, m_count = 0,
             m_prototype = ''int f(int)''\<rparr> :: (int verified, int, int, unit, unit) mock_aux"
  have r: "run ?impl verified_assign (verified 0) [0] [Assign_result 7, Call [1], Reset]
      (mock_aux (verified (0::int)) [0::int] ''int f(int)'', (), 0) = Some (?aux, (), 0)"
    by (simp add: JG_MOCK_function_def mock_impl_impl_def mock_impl_base_impl_def set_params_def
        mock_impl_dtor_def verified_operator_T_def verify_def verified_assign_def verified_def
        reset_def mock_aux_def seen_def count_def trim_def trim_left_def trim_right_def)
  have f: "func ?aux = None \<and> \<not> assigned (result ?aux)" by simp
  from unassigned_result_reads_value_initialised[THEN conjunct2, THEN conjunct2, THEN conjunct2, THEN conjunct2,
      rule_format, of 0 "[0]" "[Assign_result 7, Call [1], Reset]" "''int f(int)''" "()" 0 ?aux "()" 0 "[2]"] r f
  have "fst (JG_MOCK_function ?impl ?aux [2] () 0) = Returns 0"
    by (simp split: prod.splits)
  moreover have "snd (JG_MOCK_function ?impl ?aux [2] () 0) =
     (\<lparr>result = \<lparr>value = 0, assigned = False\<rparr>, m_params = [2], func = None, m_count = 1,
             m_prototype = ''int f(int)''\<rparr>, (), 1)"
    by (simp add: JG_MOCK_function_def mock_impl_impl_def mock_impl_base_impl_def set_params_def
        mock_impl_dtor_def verified_operator_T_def verify_def)
  ultimately have "JG_MOCK_function ?impl ?aux [2] () 0 = (Returns 0, \<lparr>result = \<lparr>value = 0, assigned = False\<rparr>, m_params = [2], func = None, m_count = 1,
             m_prototype = ''int f(int)''\<rparr>, (), 1)"
    by (metis prod.collapse)
  with r show ?thesis by simp
qed

end
